theory Spec2Isabelle
  imports Main
begin

section \<open>The questions router: data\<close>

text \<open>
  A shallow embedding of the resolvers of \<^verbatim>\<open>questions-question-router.ts\<close>.
  A JavaScript \<^verbatim>\<open>Date\<close> is compared through its time value, so a date is the integer
  number of milliseconds since the epoch. A field that may be \<^verbatim>\<open>null\<close> or
  \<^verbatim>\<open>undefined\<close> is an \<open>option\<close>. The persistence client is called through
  \<^verbatim>\<open>ctx.prisma\<close>; the tables it reads and writes are passed explicitly.
\<close>

type_synonym date = int

text \<open>
  Modelled from the spec: the \<^verbatim>\<open>Vote\<close> enum (UPVOTE | DOWNVOTE) of the generated
  persistence client, whose declaration is not part of the source. An enum member is the
  string of its name, which is what the \<^verbatim>\<open>switch\<close> of the tally compares.
\<close>

definition Vote_UPVOTE :: string where
  "Vote_UPVOTE = ''UPVOTE''"

definition Vote_DOWNVOTE :: string where
  "Vote_DOWNVOTE = ''DOWNVOTE''"

text \<open>What a resolver can throw: the two tRPC errors of the router, the TypeError of a
  property read on \<^verbatim>\<open>undefined\<close>, and the two request errors of the persistence client.\<close>

datatype failure =
    TRPC_NOT_FOUND
  | TRPC_UNAUTHORIZED
  | JS_TypeError
  | Prisma_RecordNotFound
  | Prisma_UniqueConstraint

text \<open>The rows of \<^verbatim>\<open>questionsQuestionVote\<close>. The owner column is nullable: the
  router stores \<^verbatim>\<open>ctx.session?.user?.id\<close>, which may be undefined.\<close>

record QuestionsQuestionVote =
  vote_id :: string
  vote_questionId :: string
  vote_userId :: "string option"
  vote :: string

text \<open>The \<^verbatim>\<open>include\<close> of the two queries: the selected columns of an encounter
  (location and role are read with \<^verbatim>\<open>??\<close>, so they may be null), the name of the
  user relation, and the two counts.\<close>

record EncounterSel =
  encounter_company :: string
  encounter_location :: "string option"
  encounter_role :: "string option"
  encounter_seenAt :: date

record UserSel =
  user_name :: "string option"

record CountSel =
  count_answers :: nat
  count_comments :: nat

record QuestionData =
  data_id :: string
  data_content :: string
  data_questionType :: string
  data_updatedAt :: date
  data_count :: CountSel
  data_encounters :: "EncounterSel list"
  data_user :: "UserSel option"
  data_votes :: "QuestionsQuestionVote list"

text \<open>The shaped record \<^verbatim>\<open>Question\<close> the queries return.\<close>

record Question =
  company :: string
  content :: string
  question_id :: string
  location :: string
  numAnswers :: nat
  numComments :: nat
  numVotes :: int
  role :: string
  seenAt :: date
  question_type :: string
  updatedAt :: date
  user :: string

text \<open>The validated input of \<^verbatim>\<open>getQuestionsByFilter\<close>.\<close>

record FilterInput =
  companies :: "string list"
  endDate :: date
  locations :: "string list"
  questionTypes :: "string list"
  roles :: "string list"
  startDate :: "date option"

section \<open>The queries\<close>

text \<open>\<^verbatim>\<open>Array.prototype.includes\<close> on a list of strings: a null argument is never
  an element.\<close>

fun array_includes :: "string list \<Rightarrow> string option \<Rightarrow> bool" where
  "array_includes xs None = False"
| "array_includes xs (Some x) = (x \<in> set xs)"

text \<open>The body of the \<^verbatim>\<open>for\<close> loop of the filter callback, for one encounter.\<close>

definition matchEncounter :: "FilterInput \<Rightarrow> EncounterSel \<Rightarrow> bool" where
  "matchEncounter inp encounter =
     (let matchCompany =
            (length (companies inp) = 0 \<or>
             array_includes (companies inp) (Some (encounter_company encounter)));
          matchLocation =
            (length (locations inp) = 0 \<or>
             array_includes (locations inp) (encounter_location encounter));
          matchRole =
            (length (roles inp) = 0 \<or> array_includes (roles inp) (encounter_role encounter));
          matchDate =
            ((case startDate inp of None \<Rightarrow> True
              | Some s \<Rightarrow> encounter_seenAt encounter \<ge> s) \<and>
             encounter_seenAt encounter \<le> endDate inp)
      in matchCompany \<and> matchLocation \<and> matchRole \<and> matchDate)"

text \<open>The loop \<^verbatim>\<open>for (let i = 0; i < data.encounters.length; i++)\<close>: it returns true
  at the first matching encounter and false when the index runs out.\<close>

function encounters_loop :: "FilterInput \<Rightarrow> EncounterSel list \<Rightarrow> nat \<Rightarrow> bool" where
  "encounters_loop inp encs i =
     (if i < length encs then
        (if matchEncounter inp (encs ! i) then True
         else encounters_loop inp encs (i + 1))
      else False)"
  by pat_completeness auto
termination
  by (relation "measure (\<lambda>(inp, encs, i). length encs - i)") auto

definition filter_callback :: "FilterInput \<Rightarrow> QuestionData \<Rightarrow> bool" where
  "filter_callback inp data = encounters_loop inp (data_encounters data) 0"

text \<open>The reducer of \<^verbatim>\<open>votes.reduce(..., 0)\<close>; the \<^verbatim>\<open>switch\<close> has no default
  branch. The same reducer is written out in both queries. The tally is a JavaScript
  number; it is bounded by the length of an array, far below \<open>2^53\<close>, so it is exact
  and modelled as an integer.\<close>

definition vote_reducer :: "int \<Rightarrow> QuestionsQuestionVote \<Rightarrow> int" where
  "vote_reducer previousValue currentValue =
     (let result = previousValue
      in if vote currentValue = Vote_UPVOTE then result + 1
         else if vote currentValue = Vote_DOWNVOTE then result - 1
         else result)"

definition reduce_votes :: "QuestionsQuestionVote list \<Rightarrow> int" where
  "reduce_votes vs = foldl vote_reducer 0 vs"

text \<open>The object literal both queries build. Reading a property of
  \<^verbatim>\<open>encounters[0]\<close> when the array is empty throws a TypeError.\<close>

definition shape :: "QuestionData \<Rightarrow> failure + Question" where
  "shape data =
     (let votes = reduce_votes (data_votes data)
      in case data_encounters data of
           [] \<Rightarrow> Inl JS_TypeError
         | e0 # _ \<Rightarrow>
             Inr \<lparr> company = encounter_company e0,
                   content = data_content data,
                   question_id = data_id data,
                   location = (case encounter_location e0 of
                                 None \<Rightarrow> ''Unknown location'' | Some l \<Rightarrow> l),
                   numAnswers = count_answers (data_count data),
                   numComments = count_comments (data_count data),
                   numVotes = votes,
                   role = (case encounter_role e0 of
                             None \<Rightarrow> ''Unknown role'' | Some r \<Rightarrow> r),
                   seenAt = encounter_seenAt e0,
                   question_type = data_questionType data,
                   updatedAt = data_updatedAt data,
                   user = (case data_user data of
                             None \<Rightarrow> ''''
                           | Some u \<Rightarrow> (case user_name u of None \<Rightarrow> '''' | Some n \<Rightarrow> n)) \<rparr>)"

text \<open>\<^verbatim>\<open>.map\<close> with a callback that may throw: the first exception ends the call.\<close>

fun map_shape :: "QuestionData list \<Rightarrow> failure + Question list" where
  "map_shape [] = Inr []"
| "map_shape (d # ds) =
     (case shape d of
        Inl e \<Rightarrow> Inl e
      | Inr q \<Rightarrow> (case map_shape ds of Inl e \<Rightarrow> Inl e | Inr qs \<Rightarrow> Inr (q # qs)))"

text \<open>\<^verbatim>\<open>getQuestionsByFilter\<close>, from the rows \<^verbatim>\<open>findMany\<close> returned
  (\<open>questionsData\<close>, already restricted to the question types and ordered by the
  persistence layer).\<close>

definition getQuestionsByFilter :: "FilterInput \<Rightarrow> QuestionData list \<Rightarrow> failure + Question list" where
  "getQuestionsByFilter inp questionsData =
     map_shape (filter (filter_callback inp) questionsData)"

text \<open>\<^verbatim>\<open>findUnique\<close> by the primary key: the row with that id, or null.\<close>

definition findUnique_question :: "string \<Rightarrow> QuestionData list \<Rightarrow> QuestionData option" where
  "findUnique_question i tbl = find (\<lambda>d. data_id d = i) tbl"

definition getQuestionById :: "string \<Rightarrow> QuestionData list \<Rightarrow> failure + Question" where
  "getQuestionById i tbl =
     (case findUnique_question i tbl of
        None \<Rightarrow> Inl TRPC_NOT_FOUND
      | Some questionData \<Rightarrow> shape questionData)"

section \<open>The mutations\<close>

text \<open>The caller: \<^verbatim>\<open>ctx.session?.user?.id\<close> is undefined when the session or its user
  is missing, and the id of the user otherwise.\<close>

record SessionUser =
  session_user_id :: string

record Session =
  session_user :: "SessionUser option"

record Context =
  ctx_session :: "Session option"

definition ctx_userId :: "Context \<Rightarrow> string option" where
  "ctx_userId ctx =
     (case ctx_session ctx of
        None \<Rightarrow> None
      | Some s \<Rightarrow> (case session_user s of None \<Rightarrow> None | Some u \<Rightarrow> Some (session_user_id u)))"

text \<open>The operands of the ownership checks. \<^verbatim>\<open>!==\<close> is strict: undefined, null and
  a string are three different values, and two strings are equal when they are the same
  string.\<close>

datatype js_value = Undefined | Null | Str string

definition userId_value :: "string option \<Rightarrow> js_value" where
  "userId_value userId = (case userId of None \<Rightarrow> Undefined | Some u \<Rightarrow> Str u)"

text \<open>The rows of \<^verbatim>\<open>questionsQuestion\<close> and \<^verbatim>\<open>questionsQuestionEncounter\<close>, with
  the columns the router writes. The keys and timestamps the schema fills in by default
  are not written by the router; of these only the id of a question is read back, and
  it is passed to the persistence model as \<open>newId\<close>.\<close>

record QuestionsQuestion =
  row_id :: string
  row_content :: string
  row_questionType :: string
  row_userId :: "string option"

record QuestionsQuestionEncounter =
  enc_company :: string
  enc_location :: "string option"
  enc_questionId :: string
  enc_role :: "string option"
  enc_seenAt :: date
  enc_userId :: "string option"

text \<open>The payload of a nested \<^verbatim>\<open>encounters: { create: [...] }\<close>: an encounter without
  its question, which the persistence layer fills in.\<close>

record EncounterCreate =
  nested_company :: string
  nested_location :: string
  nested_role :: string
  nested_seenAt :: date
  nested_userId :: "string option"

definition encounter_of_nested :: "string \<Rightarrow> EncounterCreate \<Rightarrow> QuestionsQuestionEncounter" where
  "encounter_of_nested questionId n =
     \<lparr> enc_company = nested_company n,
       enc_location = Some (nested_location n),
       enc_questionId = questionId,
       enc_role = Some (nested_role n),
       enc_seenAt = nested_seenAt n,
       enc_userId = nested_userId n \<rparr>"

record CreateInput =
  create_company :: string
  create_content :: string
  create_location :: string
  create_questionType :: string
  create_role :: string
  create_seenAt :: date

record UpdateInput =
  update_content :: "string option"
  update_id :: string
  update_questionType :: "string option"

record CreateVoteInput =
  createVote_questionId :: string
  createVote_vote :: string

record UpdateVoteInput =
  updateVote_id :: string
  updateVote_vote :: string

subsection \<open>The persistence client\<close>

text \<open>A table is the list of its rows. \<^verbatim>\<open>findUnique\<close> returns the row with the key or
  null; \<^verbatim>\<open>update\<close> and \<^verbatim>\<open>delete\<close> of a key that has no row fail with the
  client's record-not-found error; \<^verbatim>\<open>create\<close> of a key that has a row fails with its
  unique-constraint error. Each call returns its result and the table after it.\<close>

definition questionsQuestion_findUnique :: "string \<Rightarrow> QuestionsQuestion list \<Rightarrow> QuestionsQuestion option" where
  "questionsQuestion_findUnique i tbl = find (\<lambda>r. row_id r = i) tbl"

text \<open>\<^verbatim>\<open>questionsQuestion.create\<close> with nested encounters: one write, the question row
  and the encounter rows of the payload together.\<close>

definition questionsQuestion_create ::
  "string \<Rightarrow> string \<Rightarrow> string \<Rightarrow> string option \<Rightarrow> EncounterCreate list \<Rightarrow>
   QuestionsQuestion list \<times> QuestionsQuestionEncounter list \<Rightarrow>
   (failure + QuestionsQuestion) \<times> (QuestionsQuestion list \<times> QuestionsQuestionEncounter list)" where
  "questionsQuestion_create newId c t userId nested db =
     (case questionsQuestion_findUnique newId (fst db) of
        Some _ \<Rightarrow> (Inl Prisma_UniqueConstraint, db)
      | None \<Rightarrow>
          (let question = \<lparr> row_id = newId, row_content = c, row_questionType = t,
                            row_userId = userId \<rparr>
           in (Inr question,
               (fst db @ [question], snd db @ map (encounter_of_nested newId) nested))))"

definition questionsQuestionEncounter_create ::
  "QuestionsQuestionEncounter \<Rightarrow> QuestionsQuestionEncounter list \<Rightarrow> QuestionsQuestionEncounter list" where
  "questionsQuestionEncounter_create row tbl = tbl @ [row]"

text \<open>\<^verbatim>\<open>data: { ...input }\<close>: the id is written too, and an undefined field leaves its
  column as it is.\<close>

definition update_data :: "UpdateInput \<Rightarrow> QuestionsQuestion \<Rightarrow> QuestionsQuestion" where
  "update_data data r =
     r \<lparr> row_content := (case update_content data of None \<Rightarrow> row_content r | Some c \<Rightarrow> c),
         row_id := update_id data,
         row_questionType :=
           (case update_questionType data of None \<Rightarrow> row_questionType r | Some t \<Rightarrow> t) \<rparr>"

definition questionsQuestion_update ::
  "UpdateInput \<Rightarrow> string \<Rightarrow> QuestionsQuestion list \<Rightarrow>
   (failure + QuestionsQuestion) \<times> QuestionsQuestion list" where
  "questionsQuestion_update data i tbl =
     (case questionsQuestion_findUnique i tbl of
        None \<Rightarrow> (Inl Prisma_RecordNotFound, tbl)
      | Some r \<Rightarrow>
          (Inr (update_data data r),
           map (\<lambda>x. if row_id x = i then update_data data x else x) tbl))"

definition questionsQuestion_delete ::
  "string \<Rightarrow> QuestionsQuestion list \<Rightarrow> (failure + QuestionsQuestion) \<times> QuestionsQuestion list" where
  "questionsQuestion_delete i tbl =
     (case questionsQuestion_findUnique i tbl of
        None \<Rightarrow> (Inl Prisma_RecordNotFound, tbl)
      | Some r \<Rightarrow> (Inr r, filter (\<lambda>x. row_id x \<noteq> i) tbl))"

definition questionsQuestionVote_findUnique ::
  "string \<Rightarrow> QuestionsQuestionVote list \<Rightarrow> QuestionsQuestionVote option" where
  "questionsQuestionVote_findUnique i tbl = find (\<lambda>r. vote_id r = i) tbl"

text \<open>Modelled from the spec: the composite-uniqueness constraint of the vote table, which
  the schema declares and the source does not contain. At most one vote per
  (questionId, userId) pair: an insertion for a pair that has a row is rejected.\<close>

definition questionsQuestionVote_create ::
  "string \<Rightarrow> string \<Rightarrow> string \<Rightarrow> string option \<Rightarrow> QuestionsQuestionVote list \<Rightarrow>
   (failure + QuestionsQuestionVote) \<times> QuestionsQuestionVote list" where
  "questionsQuestionVote_create newId questionId v userId tbl =
     (if \<exists>r \<in> set tbl. vote_id r = newId \<or>
           (vote_questionId r = questionId \<and> vote_userId r = userId)
      then (Inl Prisma_UniqueConstraint, tbl)
      else (let row = \<lparr> vote_id = newId, vote_questionId = questionId,
                         vote_userId = userId, vote = v \<rparr>
            in (Inr row, tbl @ [row])))"

definition questionsQuestionVote_update ::
  "string \<Rightarrow> string \<Rightarrow> QuestionsQuestionVote list \<Rightarrow>
   (failure + QuestionsQuestionVote) \<times> QuestionsQuestionVote list" where
  "questionsQuestionVote_update v i tbl =
     (case questionsQuestionVote_findUnique i tbl of
        None \<Rightarrow> (Inl Prisma_RecordNotFound, tbl)
      | Some r \<Rightarrow>
          (Inr (r \<lparr> vote := v \<rparr>),
           map (\<lambda>x. if vote_id x = i then x \<lparr> vote := v \<rparr> else x) tbl))"

definition questionsQuestionVote_delete ::
  "string \<Rightarrow> QuestionsQuestionVote list \<Rightarrow>
   (failure + QuestionsQuestionVote) \<times> QuestionsQuestionVote list" where
  "questionsQuestionVote_delete i tbl =
     (case questionsQuestionVote_findUnique i tbl of
        None \<Rightarrow> (Inl Prisma_RecordNotFound, tbl)
      | Some r \<Rightarrow> (Inr r, filter (\<lambda>x. vote_id x \<noteq> i) tbl))"

subsection \<open>The resolvers\<close>

text \<open>\<^verbatim>\<open>create\<close>: the question with its nested encounter, then
  \<^verbatim>\<open>questionsQuestionEncounter.create\<close> with the same fields and the id of the new
  question. An exception of the first call ends the resolver.\<close>

definition create ::
  "Context \<Rightarrow> CreateInput \<Rightarrow> string \<Rightarrow>
   QuestionsQuestion list \<times> QuestionsQuestionEncounter list \<Rightarrow>
   (failure + QuestionsQuestion) \<times> (QuestionsQuestion list \<times> QuestionsQuestionEncounter list)" where
  "create ctx inp newId db =
     (let userId = ctx_userId ctx
      in case questionsQuestion_create newId (create_content inp) (create_questionType inp) userId
                [\<lparr> nested_company = create_company inp,
                   nested_location = create_location inp,
                   nested_role = create_role inp,
                   nested_seenAt = create_seenAt inp,
                   nested_userId = userId \<rparr>] db of
           (Inl e, db') \<Rightarrow> (Inl e, db')
         | (Inr question, db') \<Rightarrow>
             (Inr question,
              (fst db',
               questionsQuestionEncounter_create
                 \<lparr> enc_company = create_company inp,
                   enc_location = Some (create_location inp),
                   enc_questionId = row_id question,
                   enc_role = Some (create_role inp),
                   enc_seenAt = create_seenAt inp,
                   enc_userId = userId \<rparr> (snd db'))))"

text \<open>\<^verbatim>\<open>questionToUpdate?.id\<close>: undefined when the lookup returned null.\<close>

definition optional_id :: "QuestionsQuestion option \<Rightarrow> js_value" where
  "optional_id q = (case q of None \<Rightarrow> Undefined | Some r \<Rightarrow> Str (row_id r))"

definition update ::
  "Context \<Rightarrow> UpdateInput \<Rightarrow> QuestionsQuestion list \<Rightarrow>
   (failure + QuestionsQuestion) \<times> QuestionsQuestion list" where
  "update ctx inp tbl =
     (let userId = ctx_userId ctx;
          questionToUpdate = questionsQuestion_findUnique (update_id inp) tbl
      in if optional_id questionToUpdate \<noteq> userId_value userId
         then (Inl TRPC_UNAUTHORIZED, tbl)
         else questionsQuestion_update inp (update_id inp) tbl)"

definition delete ::
  "Context \<Rightarrow> string \<Rightarrow> QuestionsQuestion list \<Rightarrow>
   (failure + QuestionsQuestion) \<times> QuestionsQuestion list" where
  "delete ctx i tbl =
     (let userId = ctx_userId ctx;
          questionToDelete = questionsQuestion_findUnique i tbl
      in if optional_id questionToDelete \<noteq> userId_value userId
         then (Inl TRPC_UNAUTHORIZED, tbl)
         else questionsQuestion_delete i tbl)"

text \<open>\<^verbatim>\<open>createVote\<close>: \<^verbatim>\<open>data: { ...input, userId }\<close>, with no lookup before it.\<close>

definition createVote ::
  "Context \<Rightarrow> CreateVoteInput \<Rightarrow> string \<Rightarrow> QuestionsQuestionVote list \<Rightarrow>
   (failure + QuestionsQuestionVote) \<times> QuestionsQuestionVote list" where
  "createVote ctx inp newId tbl =
     (let userId = ctx_userId ctx
      in questionsQuestionVote_create newId (createVote_questionId inp) (createVote_vote inp)
           userId tbl)"

text \<open>\<^verbatim>\<open>voteToUpdate?.userId\<close>: undefined when the lookup returned null, null when the
  row has no owner.\<close>

definition optional_userId :: "QuestionsQuestionVote option \<Rightarrow> js_value" where
  "optional_userId v =
     (case v of
        None \<Rightarrow> Undefined
      | Some r \<Rightarrow> (case vote_userId r of None \<Rightarrow> Null | Some u \<Rightarrow> Str u))"

definition updateVote ::
  "Context \<Rightarrow> UpdateVoteInput \<Rightarrow> QuestionsQuestionVote list \<Rightarrow>
   (failure + QuestionsQuestionVote) \<times> QuestionsQuestionVote list" where
  "updateVote ctx inp tbl =
     (let userId = ctx_userId ctx;
          voteToUpdate = questionsQuestionVote_findUnique (updateVote_id inp) tbl
      in if optional_userId voteToUpdate \<noteq> userId_value userId
         then (Inl TRPC_UNAUTHORIZED, tbl)
         else questionsQuestionVote_update (updateVote_vote inp) (updateVote_id inp) tbl)"

definition deleteVote ::
  "Context \<Rightarrow> string \<Rightarrow> QuestionsQuestionVote list \<Rightarrow>
   (failure + QuestionsQuestionVote) \<times> QuestionsQuestionVote list" where
  "deleteVote ctx i tbl =
     (let userId = ctx_userId ctx;
          voteToDelete = questionsQuestionVote_findUnique i tbl
      in if optional_userId voteToDelete \<noteq> userId_value userId
         then (Inl TRPC_UNAUTHORIZED, tbl)
         else questionsQuestionVote_delete i tbl)"

section \<open>Sample data\<close>

text \<open>Rows and inputs at which the theorems below are evaluated.\<close>

definition ex_encounterA :: EncounterSel where
  "ex_encounterA = \<lparr> encounter_company = ''A'', encounter_location = None,
     encounter_role = Some ''SWE'', encounter_seenAt = 10 \<rparr>"

definition ex_encounterB :: EncounterSel where
  "ex_encounterB = \<lparr> encounter_company = ''B'', encounter_location = Some ''SG'',
     encounter_role = None, encounter_seenAt = 20 \<rparr>"

definition ex_vote :: "string \<Rightarrow> string \<Rightarrow> QuestionsQuestionVote" where
  "ex_vote i v = \<lparr> vote_id = i, vote_questionId = ''q1'', vote_userId = Some i, vote = v \<rparr>"

definition ex_question :: QuestionData where
  "ex_question = \<lparr> data_id = ''q1'', data_content = ''c1'', data_questionType = ''CODING'',
     data_updatedAt = 5, data_count = \<lparr> count_answers = 2, count_comments = 3 \<rparr>,
     data_encounters = [ex_encounterA, ex_encounterB], data_user = None,
     data_votes = [ex_vote ''1'' Vote_UPVOTE, ex_vote ''2'' Vote_DOWNVOTE,
                   ex_vote ''3'' Vote_UPVOTE, ex_vote ''4'' Vote_UPVOTE,
                   ex_vote ''5'' ''OTHER''] \<rparr>"

definition ex_questionA :: QuestionData where
  "ex_questionA = ex_question \<lparr> data_id := ''q2'', data_encounters := [ex_encounterA] \<rparr>"

definition ex_bare :: QuestionData where
  "ex_bare = ex_question \<lparr> data_id := ''q3'', data_encounters := [] \<rparr>"

definition ex_filter :: FilterInput where
  "ex_filter = \<lparr> companies = [''B''], endDate = 30, locations = [], questionTypes = [],
     roles = [], startDate = None \<rparr>"

lemmas ex_defs = ex_encounterA_def ex_encounterB_def ex_vote_def ex_question_def
  ex_questionA_def ex_bare_def ex_filter_def

definition ex_ctx :: "string \<Rightarrow> Context" where
  "ex_ctx u = \<lparr> ctx_session = Some \<lparr> session_user = Some \<lparr> session_user_id = u \<rparr> \<rparr> \<rparr>"

definition ex_anonymous :: Context where
  "ex_anonymous = \<lparr> ctx_session = None \<rparr>"

definition ex_row :: "string \<Rightarrow> string \<Rightarrow> QuestionsQuestion" where
  "ex_row i owner = \<lparr> row_id = i, row_content = ''c1'', row_questionType = ''CODING'',
     row_userId = Some owner \<rparr>"

definition ex_update :: "string \<Rightarrow> UpdateInput" where
  "ex_update i = \<lparr> update_content = Some ''c2'', update_id = i, update_questionType = None \<rparr>"

lemmas ex_mut_defs = ex_ctx_def ex_anonymous_def ex_row_def ex_update_def

definition ex_questions :: "QuestionsQuestion list" where
  "ex_questions = [ex_row ''q1'' ''u1'', ex_row ''u1'' ''u2'']"

definition ex_vote_row :: "string \<Rightarrow> string \<Rightarrow> QuestionsQuestionVote" where
  "ex_vote_row i owner = \<lparr> vote_id = i, vote_questionId = ''q1'', vote_userId = Some owner,
     vote = Vote_UPVOTE \<rparr>"

definition ex_votes :: "QuestionsQuestionVote list" where
  "ex_votes = [ex_vote_row ''v1'' ''u1'', ex_vote_row ''v2'' ''u2'']"

definition ex_updateVote :: "string \<Rightarrow> UpdateVoteInput" where
  "ex_updateVote i = \<lparr> updateVote_id = i, updateVote_vote = Vote_DOWNVOTE \<rparr>"

definition ex_createVote :: "string \<Rightarrow> CreateVoteInput" where
  "ex_createVote v = \<lparr> createVote_questionId = ''q2'', createVote_vote = v \<rparr>"

definition ex_create :: CreateInput where
  "ex_create = \<lparr> create_company = ''A'', create_content = ''c1'', create_location = ''SG'',
     create_questionType = ''CODING'', create_role = ''SWE'', create_seenAt = 10 \<rparr>"

section \<open>Properties\<close>

lemma ex_from_split:
  "(\<exists>j. i \<le> j \<and> Q j) \<longleftrightarrow> Q i \<or> (\<exists>j. Suc i \<le> j \<and> Q j)" for i :: nat
proof
  assume "\<exists>j. i \<le> j \<and> Q j"
  then obtain j where j: "i \<le> j" "Q j" by blast
  show "Q i \<or> (\<exists>j. Suc i \<le> j \<and> Q j)"
  proof (cases "j = i")
    case True
    with j show ?thesis by simp
  next
    case False
    with j have "Suc i \<le> j" by simp
    with j show ?thesis by blast
  qed
next
  assume "Q i \<or> (\<exists>j. Suc i \<le> j \<and> Q j)"
  then show "\<exists>j. i \<le> j \<and> Q j"
    using Suc_leD by blast
qed

lemma encounters_loop_iff:
  "encounters_loop inp encs i \<longleftrightarrow>
     (\<exists>j. i \<le> j \<and> j < length encs \<and> matchEncounter inp (encs ! j))"
proof (induction inp encs i rule: encounters_loop.induct)
  case (1 inp encs i)
  show ?case
  proof (cases "i < length encs")
    case False
    then show ?thesis by (subst encounters_loop.simps) auto
  next
    case inb: True
    show ?thesis
    proof (cases "matchEncounter inp (encs ! i)")
      case True
      with inb show ?thesis by (subst encounters_loop.simps) auto
    next
      case False
      have "encounters_loop inp encs i = encounters_loop inp encs (i + 1)"
        using inb False by (subst encounters_loop.simps) simp
      also have "\<dots> \<longleftrightarrow>
          (\<exists>j. Suc i \<le> j \<and> j < length encs \<and> matchEncounter inp (encs ! j))"
        using 1 [OF inb False] by simp
      also have "\<dots> \<longleftrightarrow>
          (\<exists>j. i \<le> j \<and> j < length encs \<and> matchEncounter inp (encs ! j))"
        using False ex_from_split [of i "\<lambda>j. j < length encs \<and> matchEncounter inp (encs ! j)"]
        by simp
      finally show ?thesis .
    qed
  qed
qed

lemma filter_callback_iff:
  "filter_callback inp data \<longleftrightarrow> (\<exists>e \<in> set (data_encounters data). matchEncounter inp e)"
proof -
  have "filter_callback inp data \<longleftrightarrow>
      (\<exists>j. j < length (data_encounters data) \<and> matchEncounter inp (data_encounters data ! j))"
    unfolding filter_callback_def encounters_loop_iff by simp
  also have "\<dots> \<longleftrightarrow> (\<exists>e \<in> set (data_encounters data). matchEncounter inp e)"
    by (metis in_set_conv_nth)
  finally show ?thesis .
qed

lemma Vote_UPVOTE_neq_DOWNVOTE: "Vote_UPVOTE \<noteq> Vote_DOWNVOTE"
  by (simp add: Vote_UPVOTE_def Vote_DOWNVOTE_def)

lemma foldl_vote_reducer:
  "foldl vote_reducer a vs =
     a + int (count_list (map vote vs) Vote_UPVOTE) - int (count_list (map vote vs) Vote_DOWNVOTE)"
  using Vote_UPVOTE_neq_DOWNVOTE
  by (induction vs arbitrary: a) (simp_all add: vote_reducer_def)

lemma reduce_votes_eq:
  "reduce_votes vs =
     int (count_list (map vote vs) Vote_UPVOTE) - int (count_list (map vote vs) Vote_DOWNVOTE)"
  by (simp add: reduce_votes_def foldl_vote_reducer)

lemma map_shape_Inr_iff:
  "map_shape ds = Inr rs \<longleftrightarrow> list_all2 (\<lambda>d r. shape d = Inr r) ds rs"
proof (induction ds arbitrary: rs)
  case Nil
  show ?case by auto
next
  case (Cons d ds)
  show ?case
    by (auto simp: list_all2_Cons1 Cons.IH [symmetric] split: sum.splits)
qed

lemma shape_defined:
  "data_encounters d \<noteq> [] \<Longrightarrow> \<exists>r. shape d = Inr r"
  by (cases "data_encounters d") (simp_all add: shape_def)

lemma shape_empty:
  "data_encounters d = [] \<Longrightarrow> shape d = Inl JS_TypeError"
  by (simp add: shape_def)

lemma map_shape_defined:
  "(\<And>d. d \<in> set ds \<Longrightarrow> data_encounters d \<noteq> []) \<Longrightarrow> \<exists>rs. map_shape ds = Inr rs"
proof (induction ds)
  case Nil
  show ?case by simp
next
  case (Cons d ds)
  from Cons.prems obtain r where r: "shape d = Inr r"
    using shape_defined by (meson list.set_intros(1))
  from Cons obtain rs where "map_shape ds = Inr rs" by auto
  with r show ?case by simp
qed

lemma filter_callback_nonempty:
  "filter_callback inp d \<Longrightarrow> data_encounters d \<noteq> []"
  by (auto simp: filter_callback_iff)

lemma getQuestionsByFilter_defined:
  "\<exists>rs. getQuestionsByFilter inp ds = Inr rs"
  unfolding getQuestionsByFilter_def
  by (rule map_shape_defined) (auto dest: filter_callback_nonempty)

lemma matchEncounter_iff:
  "matchEncounter inp e \<longleftrightarrow>
     (companies inp = [] \<or> encounter_company e \<in> set (companies inp)) \<and>
     (locations inp = [] \<or> encounter_location e \<in> Some ` set (locations inp)) \<and>
     (roles inp = [] \<or> encounter_role e \<in> Some ` set (roles inp)) \<and>
     (case startDate inp of None \<Rightarrow> True | Some s \<Rightarrow> s \<le> encounter_seenAt e) \<and>
     encounter_seenAt e \<le> endDate inp"
proof -
  have inc: "array_includes xs x \<longleftrightarrow> x \<in> Some ` set xs" for xs x
    by (cases x) auto
  show ?thesis
    by (simp add: matchEncounter_def Let_def inc image_iff)
qed

text \<open>C1. \<^verbatim>\<open>getQuestionsByFilter\<close> returns, in order, the shaped records of exactly those
  fetched questions of which at least one encounter satisfies all four conditions at once:
  the company is in the companies filter or that filter is empty, the same for the location
  and for the role, and \<open>seenAt\<close> is at most \<open>endDate\<close> and, when a \<open>startDate\<close> is given,
  at least \<open>startDate\<close>.\<close>

theorem getQuestionsByFilter_retains_iff:
  "\<exists>rs. getQuestionsByFilter inp questionsData = Inr rs \<and>
     list_all2 (\<lambda>d r. shape d = Inr r)
       (filter (\<lambda>d. \<exists>e \<in> set (data_encounters d).
            (companies inp = [] \<or> encounter_company e \<in> set (companies inp)) \<and>
            (locations inp = [] \<or> encounter_location e \<in> Some ` set (locations inp)) \<and>
            (roles inp = [] \<or> encounter_role e \<in> Some ` set (roles inp)) \<and>
            (case startDate inp of None \<Rightarrow> True | Some s \<Rightarrow> s \<le> encounter_seenAt e) \<and>
            encounter_seenAt e \<le> endDate inp)
          questionsData) rs"
proof -
  obtain rs where rs: "getQuestionsByFilter inp questionsData = Inr rs"
    using getQuestionsByFilter_defined by blast
  then have "list_all2 (\<lambda>d r. shape d = Inr r) (filter (filter_callback inp) questionsData) rs"
    by (simp add: getQuestionsByFilter_def map_shape_Inr_iff)
  then show ?thesis
    using rs by (auto simp: filter_callback_iff matchEncounter_iff cong: filter_cong)
qed

theorem getQuestionsByFilter_retains_iff_witness:
  "\<exists>rs. getQuestionsByFilter ex_filter [ex_questionA, ex_question] = Inr rs \<and>
     list_all2 (\<lambda>d r. shape d = Inr r) [ex_question] rs"
  using getQuestionsByFilter_retains_iff [of ex_filter "[ex_questionA, ex_question]"]
  by (simp add: ex_defs)

lemma getQuestionById_cases:
  "getQuestionById i tbl = Inr r \<Longrightarrow> \<exists>d. findUnique_question i tbl = Some d \<and> shape d = Inr r"
  by (auto simp: getQuestionById_def split: option.splits)


lemma findUnique_question_None:
  "findUnique_question i tbl = None \<longleftrightarrow> i \<notin> set (map data_id tbl)"
  unfolding findUnique_question_def
  by (induction tbl) auto

lemma shape_numVotes:
  "shape d = Inr r \<Longrightarrow> numVotes r = reduce_votes (data_votes d)"
  by (auto simp: shape_def Let_def split: list.splits)

text \<open>C3. The \<open>numVotes\<close> of a record returned by \<^verbatim>\<open>getQuestionById\<close> or
  \<^verbatim>\<open>getQuestionsByFilter\<close> is the number of UPVOTE rows minus the number of DOWNVOTE rows
  among the votes of the question; a row with any other value counts for nothing.\<close>

theorem numVotes_upvotes_minus_downvotes:
  "(getQuestionById i tbl = Inr r \<longrightarrow>
      (\<exists>d. findUnique_question i tbl = Some d \<and>
           numVotes r = int (count_list (map vote (data_votes d)) Vote_UPVOTE) -
                        int (count_list (map vote (data_votes d)) Vote_DOWNVOTE))) \<and>
   (\<exists>rs. getQuestionsByFilter inp questionsData = Inr rs \<and>
      map numVotes rs =
        map (\<lambda>d. int (count_list (map vote (data_votes d)) Vote_UPVOTE) -
                  int (count_list (map vote (data_votes d)) Vote_DOWNVOTE))
          (filter (filter_callback inp) questionsData))"
proof
  show "getQuestionById i tbl = Inr r \<longrightarrow>
      (\<exists>d. findUnique_question i tbl = Some d \<and>
           numVotes r = int (count_list (map vote (data_votes d)) Vote_UPVOTE) -
                        int (count_list (map vote (data_votes d)) Vote_DOWNVOTE))"
    using getQuestionById_cases shape_numVotes reduce_votes_eq by metis
next
  obtain rs where rs: "getQuestionsByFilter inp questionsData = Inr rs"
    using getQuestionsByFilter_defined by blast
  then have "list_all2 (\<lambda>d r. shape d = Inr r) (filter (filter_callback inp) questionsData) rs"
    by (simp add: getQuestionsByFilter_def map_shape_Inr_iff)
  then have "list_all2 (\<lambda>d r. numVotes r =
        int (count_list (map vote (data_votes d)) Vote_UPVOTE) -
        int (count_list (map vote (data_votes d)) Vote_DOWNVOTE))
      (filter (filter_callback inp) questionsData) rs"
    by (rule list_all2_mono) (simp add: shape_numVotes reduce_votes_eq)
  then have "map numVotes rs =
        map (\<lambda>d. int (count_list (map vote (data_votes d)) Vote_UPVOTE) -
                  int (count_list (map vote (data_votes d)) Vote_DOWNVOTE))
          (filter (filter_callback inp) questionsData)"
    by (induction rule: list_all2_induct) simp_all
  with rs show "\<exists>rs. getQuestionsByFilter inp questionsData = Inr rs \<and>
      map numVotes rs =
        map (\<lambda>d. int (count_list (map vote (data_votes d)) Vote_UPVOTE) -
                  int (count_list (map vote (data_votes d)) Vote_DOWNVOTE))
          (filter (filter_callback inp) questionsData)"
    by blast
qed

lemma ex_question_by_id:
  "getQuestionById ''q1'' [ex_questionA, ex_question] =
     Inr \<lparr> company = ''A'', content = ''c1'', question_id = ''q1'',
           location = ''Unknown location'', numAnswers = 2, numComments = 3, numVotes = 2,
           role = ''SWE'', seenAt = 10, question_type = ''CODING'', updatedAt = 5,
           user = '''' \<rparr>"
  by (simp add: getQuestionById_def findUnique_question_def shape_def reduce_votes_def
      vote_reducer_def Vote_UPVOTE_def Vote_DOWNVOTE_def ex_defs)

theorem numVotes_upvotes_minus_downvotes_witness:
  "getQuestionById ''q1'' [ex_questionA, ex_question] =
     Inr \<lparr> company = ''A'', content = ''c1'', question_id = ''q1'',
           location = ''Unknown location'', numAnswers = 2, numComments = 3, numVotes = 2,
           role = ''SWE'', seenAt = 10, question_type = ''CODING'', updatedAt = 5,
           user = '''' \<rparr> \<and>
   (\<exists>d. findUnique_question ''q1'' [ex_questionA, ex_question] = Some d \<and>
        (2::int) = int (count_list (map vote (data_votes d)) Vote_UPVOTE) -
                   int (count_list (map vote (data_votes d)) Vote_DOWNVOTE))"
  using numVotes_upvotes_minus_downvotes [of "''q1''" "[ex_questionA, ex_question]"
      "\<lparr> company = ''A'', content = ''c1'', question_id = ''q1'',
           location = ''Unknown location'', numAnswers = 2, numComments = 3, numVotes = 2,
           role = ''SWE'', seenAt = 10, question_type = ''CODING'', updatedAt = 5,
           user = '''' \<rparr>"]
    ex_question_by_id
  by simp

text \<open>C6. \<^verbatim>\<open>getQuestionById\<close> with an id that no stored question has fails with
  NOT_FOUND: it returns no record.\<close>

theorem getQuestionById_unknown_id:
  "i \<notin> set (map data_id tbl) \<Longrightarrow> getQuestionById i tbl = Inl TRPC_NOT_FOUND"
proof -
  assume "i \<notin> set (map data_id tbl)"
  then have "findUnique_question i tbl = None"
    using findUnique_question_None by blast
  then show ?thesis
    by (simp add: getQuestionById_def)
qed

theorem getQuestionById_unknown_id_witness:
  "''q9'' \<notin> set (map data_id [ex_questionA, ex_question]) \<and>
   getQuestionById ''q9'' [ex_questionA, ex_question] = Inl TRPC_NOT_FOUND"
proof -
  have h: "''q9'' \<notin> set (map data_id [ex_questionA, ex_question])"
    by (simp add: ex_defs)
  show ?thesis
    using h getQuestionById_unknown_id [OF h] by simp
qed






text \<open>C10. A question that passes the filter of \<^verbatim>\<open>getQuestionsByFilter\<close> has an encounter,
  so the read of the first encounter is defined and the query always returns a list.
  \<^verbatim>\<open>getQuestionById\<close> has no such guard: for a stored question it returns a record when
  the question has an encounter, and the read of the first encounter fails with a
  TypeError when it has none.\<close>

theorem first_encounter_access:
  "(\<forall>d \<in> set (filter (filter_callback inp) questionsData). data_encounters d \<noteq> []) \<and>
   (\<exists>rs. getQuestionsByFilter inp questionsData = Inr rs) \<and>
   (findUnique_question i tbl = Some d \<and> data_encounters d = [] \<longrightarrow>
      getQuestionById i tbl = Inl JS_TypeError) \<and>
   (findUnique_question i tbl = Some d \<and> data_encounters d \<noteq> [] \<longrightarrow>
      (\<exists>r. getQuestionById i tbl = Inr r))"
proof (intro conjI)
  show "\<forall>d \<in> set (filter (filter_callback inp) questionsData). data_encounters d \<noteq> []"
    using filter_callback_nonempty by auto
  show "\<exists>rs. getQuestionsByFilter inp questionsData = Inr rs"
    by (rule getQuestionsByFilter_defined)
  show "findUnique_question i tbl = Some d \<and> data_encounters d = [] \<longrightarrow>
      getQuestionById i tbl = Inl JS_TypeError"
    by (simp add: getQuestionById_def shape_empty)
  show "findUnique_question i tbl = Some d \<and> data_encounters d \<noteq> [] \<longrightarrow>
      (\<exists>r. getQuestionById i tbl = Inr r)"
    using shape_defined [of d] by (simp add: getQuestionById_def)
qed

theorem first_encounter_access_witness:
  "findUnique_question ''q3'' [ex_bare, ex_question] = Some ex_bare \<and>
   data_encounters ex_bare = [] \<and>
   getQuestionById ''q3'' [ex_bare, ex_question] = Inl JS_TypeError \<and>
   findUnique_question ''q1'' [ex_bare, ex_question] = Some ex_question \<and>
   data_encounters ex_question \<noteq> [] \<and>
   (\<exists>r. getQuestionById ''q1'' [ex_bare, ex_question] = Inr r) \<and>
   (\<exists>rs. getQuestionsByFilter ex_filter [ex_bare, ex_question] = Inr rs)"
proof -
  have a: "findUnique_question ''q3'' [ex_bare, ex_question] = Some ex_bare \<and>
      data_encounters ex_bare = []"
    by (simp add: findUnique_question_def ex_defs)
  have b: "findUnique_question ''q1'' [ex_bare, ex_question] = Some ex_question \<and>
      data_encounters ex_question \<noteq> []"
    by (simp add: findUnique_question_def ex_defs)
  have c: "getQuestionById ''q3'' [ex_bare, ex_question] = Inl JS_TypeError"
    using a first_encounter_access [of ex_filter "[ex_bare, ex_question]" "''q3''"
        "[ex_bare, ex_question]" ex_bare]
    by blast
  have d: "\<exists>r. getQuestionById ''q1'' [ex_bare, ex_question] = Inr r"
    using b first_encounter_access [of ex_filter "[ex_bare, ex_question]" "''q1''"
        "[ex_bare, ex_question]" ex_question]
    by blast
  have e: "\<exists>rs. getQuestionsByFilter ex_filter [ex_bare, ex_question] = Inr rs"
    using first_encounter_access [of ex_filter "[ex_bare, ex_question]" "''q1''"
        "[ex_bare, ex_question]" ex_question]
    by blast
  from a b c d e show ?thesis
    by blast
qed

lemma questionsQuestion_findUnique_id:
  "questionsQuestion_findUnique i tbl = Some r \<Longrightarrow> row_id r = i"
  unfolding questionsQuestion_findUnique_def
  by (induction tbl) (auto split: if_splits)

lemma update_data_same_id:
  "row_id r = update_id data \<Longrightarrow>
     update_data data r =
       r \<lparr> row_content := (case update_content data of None \<Rightarrow> row_content r | Some c \<Rightarrow> c),
           row_questionType :=
             (case update_questionType data of None \<Rightarrow> row_questionType r | Some t \<Rightarrow> t) \<rparr>"
  by (simp add: update_data_def)

lemma unauthorized_iff_update:
  "fst (update ctx inp tbl) = Inl TRPC_UNAUTHORIZED \<longleftrightarrow>
     optional_id (questionsQuestion_findUnique (update_id inp) tbl) \<noteq> userId_value (ctx_userId ctx)"
  by (simp add: update_def Let_def questionsQuestion_update_def split: option.splits)

lemma unauthorized_iff_delete:
  "fst (delete ctx i tbl) = Inl TRPC_UNAUTHORIZED \<longleftrightarrow>
     optional_id (questionsQuestion_findUnique i tbl) \<noteq> userId_value (ctx_userId ctx)"
  by (simp add: delete_def Let_def questionsQuestion_delete_def split: option.splits)

lemma update_authorized:
  assumes "questionsQuestion_findUnique (update_id inp) tbl = Some q"
      and "ctx_userId ctx = Some (row_id q)"
  shows "update ctx inp tbl =
      (Inr (q \<lparr> row_content := (case update_content inp of None \<Rightarrow> row_content q | Some c \<Rightarrow> c),
                row_questionType :=
                  (case update_questionType inp of None \<Rightarrow> row_questionType q | Some t \<Rightarrow> t) \<rparr>),
       map (\<lambda>r. if row_id r = update_id inp
                then r \<lparr> row_content :=
                           (case update_content inp of None \<Rightarrow> row_content r | Some c \<Rightarrow> c),
                         row_questionType :=
                           (case update_questionType inp of
                              None \<Rightarrow> row_questionType r | Some t \<Rightarrow> t) \<rparr>
                else r) tbl)"
proof -
  have id: "row_id q = update_id inp"
    using assms(1) by (rule questionsQuestion_findUnique_id)
  have m: "map (\<lambda>x. if row_id x = update_id inp then update_data inp x else x) tbl =
      map (\<lambda>r. if row_id r = update_id inp
                then r \<lparr> row_content :=
                           (case update_content inp of None \<Rightarrow> row_content r | Some c \<Rightarrow> c),
                         row_questionType :=
                           (case update_questionType inp of
                              None \<Rightarrow> row_questionType r | Some t \<Rightarrow> t) \<rparr>
                else r) tbl"
    by (rule map_cong) (simp_all add: update_data_same_id)
  show ?thesis
    using assms id
    by (simp add: update_def Let_def optional_id_def userId_value_def
        questionsQuestion_update_def update_data_same_id m)
qed

lemma delete_authorized:
  assumes "questionsQuestion_findUnique i tbl = Some q"
      and "ctx_userId ctx = Some (row_id q)"
  shows "delete ctx i tbl = (Inr q, filter (\<lambda>r. row_id r \<noteq> i) tbl)"
  using assms
  by (simp add: delete_def Let_def optional_id_def userId_value_def questionsQuestion_delete_def)

lemma unauthorized_unchanged:
  "fst (update ctx inp tbl) = Inl TRPC_UNAUTHORIZED \<Longrightarrow> snd (update ctx inp tbl) = tbl"
  "fst (delete ctx i tbl) = Inl TRPC_UNAUTHORIZED \<Longrightarrow> snd (delete ctx i tbl) = tbl"
  by (auto simp: update_def delete_def Let_def questionsQuestion_update_def
      questionsQuestion_delete_def split: option.splits if_splits)

text \<open>C2. \<^verbatim>\<open>update\<close> and \<^verbatim>\<open>delete\<close> of a question compare the id of the fetched question
  (not its \<open>userId\<close> column) with the caller's user id. They fail with UNAUTHORIZED exactly
  when the two differ, and then leave the table as it is. When the question is found and
  its id is the caller's user id, \<^verbatim>\<open>update\<close> overwrites the content and the question type
  that the input gives and nothing else, and \<^verbatim>\<open>delete\<close> removes the row.\<close>

theorem question_ownership_check_compares_id:
  "(fst (update ctx inp tbl) = Inl TRPC_UNAUTHORIZED \<longleftrightarrow>
      optional_id (questionsQuestion_findUnique (update_id inp) tbl) \<noteq>
        userId_value (ctx_userId ctx)) \<and>
   (fst (delete ctx i tbl) = Inl TRPC_UNAUTHORIZED \<longleftrightarrow>
      optional_id (questionsQuestion_findUnique i tbl) \<noteq> userId_value (ctx_userId ctx)) \<and>
   (fst (update ctx inp tbl) = Inl TRPC_UNAUTHORIZED \<longrightarrow> snd (update ctx inp tbl) = tbl) \<and>
   (fst (delete ctx i tbl) = Inl TRPC_UNAUTHORIZED \<longrightarrow> snd (delete ctx i tbl) = tbl) \<and>
   (\<forall>q. questionsQuestion_findUnique (update_id inp) tbl = Some q \<and>
        ctx_userId ctx = Some (row_id q) \<longrightarrow>
        update ctx inp tbl =
          (Inr (q \<lparr> row_content :=
                      (case update_content inp of None \<Rightarrow> row_content q | Some c \<Rightarrow> c),
                    row_questionType :=
                      (case update_questionType inp of
                         None \<Rightarrow> row_questionType q | Some t \<Rightarrow> t) \<rparr>),
           map (\<lambda>r. if row_id r = update_id inp
                    then r \<lparr> row_content :=
                               (case update_content inp of
                                  None \<Rightarrow> row_content r | Some c \<Rightarrow> c),
                             row_questionType :=
                               (case update_questionType inp of
                                  None \<Rightarrow> row_questionType r | Some t \<Rightarrow> t) \<rparr>
                    else r) tbl)) \<and>
   (\<forall>q. questionsQuestion_findUnique i tbl = Some q \<and> ctx_userId ctx = Some (row_id q) \<longrightarrow>
        delete ctx i tbl = (Inr q, filter (\<lambda>r. row_id r \<noteq> i) tbl))"
proof (intro conjI allI impI)
  show "fst (update ctx inp tbl) = Inl TRPC_UNAUTHORIZED \<longleftrightarrow>
      optional_id (questionsQuestion_findUnique (update_id inp) tbl) \<noteq>
        userId_value (ctx_userId ctx)"
    by (rule unauthorized_iff_update)
  show "fst (delete ctx i tbl) = Inl TRPC_UNAUTHORIZED \<longleftrightarrow>
      optional_id (questionsQuestion_findUnique i tbl) \<noteq> userId_value (ctx_userId ctx)"
    by (rule unauthorized_iff_delete)
  show "snd (update ctx inp tbl) = tbl" if "fst (update ctx inp tbl) = Inl TRPC_UNAUTHORIZED"
    using that by (rule unauthorized_unchanged)
  show "snd (delete ctx i tbl) = tbl" if "fst (delete ctx i tbl) = Inl TRPC_UNAUTHORIZED"
    using that by (rule unauthorized_unchanged)
  show "update ctx inp tbl =
          (Inr (q \<lparr> row_content :=
                      (case update_content inp of None \<Rightarrow> row_content q | Some c \<Rightarrow> c),
                    row_questionType :=
                      (case update_questionType inp of
                         None \<Rightarrow> row_questionType q | Some t \<Rightarrow> t) \<rparr>),
           map (\<lambda>r. if row_id r = update_id inp
                    then r \<lparr> row_content :=
                               (case update_content inp of
                                  None \<Rightarrow> row_content r | Some c \<Rightarrow> c),
                             row_questionType :=
                               (case update_questionType inp of
                                  None \<Rightarrow> row_questionType r | Some t \<Rightarrow> t) \<rparr>
                    else r) tbl)"
    if "questionsQuestion_findUnique (update_id inp) tbl = Some q \<and>
        ctx_userId ctx = Some (row_id q)" for q
    using that update_authorized by blast
  show "delete ctx i tbl = (Inr q, filter (\<lambda>r. row_id r \<noteq> i) tbl)"
    if "questionsQuestion_findUnique i tbl = Some q \<and> ctx_userId ctx = Some (row_id q)" for q
    using that delete_authorized by blast
qed

theorem question_ownership_check_compares_id_witness:
  "fst (update (ex_ctx ''u1'') (ex_update ''q1'') ex_questions) = Inl TRPC_UNAUTHORIZED \<and>
   snd (update (ex_ctx ''u1'') (ex_update ''q1'') ex_questions) = ex_questions \<and>
   questionsQuestion_findUnique ''u1'' ex_questions = Some (ex_row ''u1'' ''u2'') \<and>
   update (ex_ctx ''u1'') (ex_update ''u1'') ex_questions =
     (Inr ((ex_row ''u1'' ''u2'') \<lparr> row_content := ''c2'' \<rparr>),
      [ex_row ''q1'' ''u1'', (ex_row ''u1'' ''u2'') \<lparr> row_content := ''c2'' \<rparr>]) \<and>
   delete (ex_ctx ''u1'') ''u1'' ex_questions = (Inr (ex_row ''u1'' ''u2''), [ex_row ''q1'' ''u1''])"
proof -
  have f1: "optional_id (questionsQuestion_findUnique (update_id (ex_update ''q1'')) ex_questions) \<noteq>
      userId_value (ctx_userId (ex_ctx ''u1''))"
    by (simp add: optional_id_def userId_value_def ctx_userId_def
        questionsQuestion_findUnique_def ex_questions_def ex_mut_defs)
  have f2: "questionsQuestion_findUnique ''u1'' ex_questions = Some (ex_row ''u1'' ''u2'')"
    by (simp add: questionsQuestion_findUnique_def ex_questions_def ex_mut_defs)
  have f3: "ctx_userId (ex_ctx ''u1'') = Some (row_id (ex_row ''u1'' ''u2''))"
    by (simp add: ctx_userId_def ex_mut_defs)
  have f4: "update_id (ex_update ''u1'') = ''u1''"
    by (simp add: ex_mut_defs)
  note a = question_ownership_check_compares_id
    [of "ex_ctx ''u1''" "ex_update ''q1''" ex_questions "''u1''"]
  note b = question_ownership_check_compares_id
    [of "ex_ctx ''u1''" "ex_update ''u1''" ex_questions "''u1''"]
  from a f1 have u: "fst (update (ex_ctx ''u1'') (ex_update ''q1'') ex_questions) =
      Inl TRPC_UNAUTHORIZED"
    by blast
  with a have s: "snd (update (ex_ctx ''u1'') (ex_update ''q1'') ex_questions) = ex_questions"
    by blast
  from b f2 f3 f4
  have "update (ex_ctx ''u1'') (ex_update ''u1'') ex_questions =
      (Inr ((ex_row ''u1'' ''u2'')
          \<lparr> row_content := (case update_content (ex_update ''u1'') of
               None \<Rightarrow> row_content (ex_row ''u1'' ''u2'') | Some c \<Rightarrow> c),
            row_questionType := (case update_questionType (ex_update ''u1'') of
               None \<Rightarrow> row_questionType (ex_row ''u1'' ''u2'') | Some t \<Rightarrow> t) \<rparr>),
       map (\<lambda>r. if row_id r = update_id (ex_update ''u1'')
                then r \<lparr> row_content := (case update_content (ex_update ''u1'') of
                            None \<Rightarrow> row_content r | Some c \<Rightarrow> c),
                         row_questionType := (case update_questionType (ex_update ''u1'') of
                            None \<Rightarrow> row_questionType r | Some t \<Rightarrow> t) \<rparr>
                else r) ex_questions)"
    by simp
  then have up: "update (ex_ctx ''u1'') (ex_update ''u1'') ex_questions =
     (Inr ((ex_row ''u1'' ''u2'') \<lparr> row_content := ''c2'' \<rparr>),
      [ex_row ''q1'' ''u1'', (ex_row ''u1'' ''u2'') \<lparr> row_content := ''c2'' \<rparr>])"
    by (simp add: ex_questions_def ex_mut_defs)
  from b f2 f3
  have "delete (ex_ctx ''u1'') ''u1'' ex_questions =
      (Inr (ex_row ''u1'' ''u2''), filter (\<lambda>r. row_id r \<noteq> ''u1'') ex_questions)"
    by blast
  then have de: "delete (ex_ctx ''u1'') ''u1'' ex_questions =
      (Inr (ex_row ''u1'' ''u2''), [ex_row ''q1'' ''u1''])"
    by (simp add: ex_questions_def ex_mut_defs)
  from u s f2 up de show ?thesis
    by blast
qed

lemma questionsQuestionVote_findUnique_id:
  "questionsQuestionVote_findUnique i tbl = Some r \<Longrightarrow> vote_id r = i"
  unfolding questionsQuestionVote_findUnique_def
  by (induction tbl) (auto split: if_splits)

text \<open>C5. For a stored vote, \<^verbatim>\<open>updateVote\<close> and \<^verbatim>\<open>deleteVote\<close> fail with UNAUTHORIZED
  and leave the vote table as it is when the caller's user id differs (\<^verbatim>\<open>!==\<close>) from the
  \<open>userId\<close> of the vote. When the two are equal, \<^verbatim>\<open>updateVote\<close> changes the \<open>vote\<close> field
  of that row and nothing else, and \<^verbatim>\<open>deleteVote\<close> removes the row.\<close>

theorem vote_ownership_check:
  assumes "questionsQuestionVote_findUnique i tbl = Some v"
  shows "(optional_userId (Some v) \<noteq> userId_value (ctx_userId ctx) \<longrightarrow>
            updateVote ctx \<lparr> updateVote_id = i, updateVote_vote = x \<rparr> tbl =
              (Inl TRPC_UNAUTHORIZED, tbl) \<and>
            deleteVote ctx i tbl = (Inl TRPC_UNAUTHORIZED, tbl)) \<and>
         (optional_userId (Some v) = userId_value (ctx_userId ctx) \<longrightarrow>
            updateVote ctx \<lparr> updateVote_id = i, updateVote_vote = x \<rparr> tbl =
              (Inr (v \<lparr> vote := x \<rparr>),
               map (\<lambda>r. if vote_id r = i then r \<lparr> vote := x \<rparr> else r) tbl) \<and>
            deleteVote ctx i tbl = (Inr v, filter (\<lambda>r. vote_id r \<noteq> i) tbl))"
  using assms
  by (simp add: updateVote_def deleteVote_def Let_def questionsQuestionVote_update_def
      questionsQuestionVote_delete_def)

theorem vote_ownership_check_witness:
  "questionsQuestionVote_findUnique ''v1'' ex_votes = Some (ex_vote_row ''v1'' ''u1'') \<and>
   updateVote (ex_ctx ''u2'') \<lparr> updateVote_id = ''v1'', updateVote_vote = Vote_DOWNVOTE \<rparr> ex_votes =
     (Inl TRPC_UNAUTHORIZED, ex_votes) \<and>
   deleteVote (ex_ctx ''u2'') ''v1'' ex_votes = (Inl TRPC_UNAUTHORIZED, ex_votes) \<and>
   updateVote (ex_ctx ''u1'') \<lparr> updateVote_id = ''v1'', updateVote_vote = Vote_DOWNVOTE \<rparr> ex_votes =
     (Inr ((ex_vote_row ''v1'' ''u1'') \<lparr> vote := Vote_DOWNVOTE \<rparr>),
      [(ex_vote_row ''v1'' ''u1'') \<lparr> vote := Vote_DOWNVOTE \<rparr>, ex_vote_row ''v2'' ''u2'']) \<and>
   deleteVote (ex_ctx ''u1'') ''v1'' ex_votes =
     (Inr (ex_vote_row ''v1'' ''u1''), [ex_vote_row ''v2'' ''u2''])"
proof -
  have f: "questionsQuestionVote_findUnique ''v1'' ex_votes = Some (ex_vote_row ''v1'' ''u1'')"
    by (simp add: questionsQuestionVote_findUnique_def ex_votes_def ex_vote_row_def)
  have ne: "optional_userId (Some (ex_vote_row ''v1'' ''u1'')) \<noteq>
      userId_value (ctx_userId (ex_ctx ''u2''))"
    by (simp add: optional_userId_def userId_value_def ctx_userId_def ex_vote_row_def ex_mut_defs)
  have eq: "optional_userId (Some (ex_vote_row ''v1'' ''u1'')) =
      userId_value (ctx_userId (ex_ctx ''u1''))"
    by (simp add: optional_userId_def userId_value_def ctx_userId_def ex_vote_row_def ex_mut_defs)
  have m: "map (\<lambda>r. if vote_id r = ''v1'' then r \<lparr> vote := Vote_DOWNVOTE \<rparr> else r) ex_votes =
      [(ex_vote_row ''v1'' ''u1'') \<lparr> vote := Vote_DOWNVOTE \<rparr>, ex_vote_row ''v2'' ''u2'']"
    by (simp add: ex_votes_def ex_vote_row_def)
  have d: "filter (\<lambda>r. vote_id r \<noteq> ''v1'') ex_votes = [ex_vote_row ''v2'' ''u2'']"
    by (simp add: ex_votes_def ex_vote_row_def)
  from vote_ownership_check [OF f, of "ex_ctx ''u2''" Vote_DOWNVOTE] ne
  have a: "updateVote (ex_ctx ''u2'') \<lparr> updateVote_id = ''v1'', updateVote_vote = Vote_DOWNVOTE \<rparr>
        ex_votes = (Inl TRPC_UNAUTHORIZED, ex_votes) \<and>
      deleteVote (ex_ctx ''u2'') ''v1'' ex_votes = (Inl TRPC_UNAUTHORIZED, ex_votes)"
    by blast
  from vote_ownership_check [OF f, of "ex_ctx ''u1''" Vote_DOWNVOTE] eq
  have b: "updateVote (ex_ctx ''u1'') \<lparr> updateVote_id = ''v1'', updateVote_vote = Vote_DOWNVOTE \<rparr>
        ex_votes =
        (Inr ((ex_vote_row ''v1'' ''u1'') \<lparr> vote := Vote_DOWNVOTE \<rparr>),
         map (\<lambda>r. if vote_id r = ''v1'' then r \<lparr> vote := Vote_DOWNVOTE \<rparr> else r) ex_votes) \<and>
      deleteVote (ex_ctx ''u1'') ''v1'' ex_votes =
        (Inr (ex_vote_row ''v1'' ''u1''), filter (\<lambda>r. vote_id r \<noteq> ''v1'') ex_votes)"
    by blast
  from f a b show ?thesis
    unfolding m d by blast
qed

text \<open>C9. When the target id has no row, \<^verbatim>\<open>update\<close>, \<^verbatim>\<open>delete\<close>, \<^verbatim>\<open>updateVote\<close> and
  \<^verbatim>\<open>deleteVote\<close> never fail with NOT_FOUND. With a defined caller id all four fail
  with UNAUTHORIZED. With an undefined caller id the ownership check of \<^verbatim>\<open>update\<close> and
  \<^verbatim>\<open>delete\<close> passes (undefined against undefined), and the mutation is issued against
  the missing row, where the persistence layer rejects it.\<close>

theorem missing_row_never_not_found:
  assumes "questionsQuestion_findUnique (update_id uinp) qs = None"
      and "questionsQuestion_findUnique i qs = None"
      and "questionsQuestionVote_findUnique (updateVote_id vinp) vs = None"
      and "questionsQuestionVote_findUnique j vs = None"
  shows "(ctx_userId ctx \<noteq> None \<longrightarrow>
            update ctx uinp qs = (Inl TRPC_UNAUTHORIZED, qs) \<and>
            delete ctx i qs = (Inl TRPC_UNAUTHORIZED, qs) \<and>
            updateVote ctx vinp vs = (Inl TRPC_UNAUTHORIZED, vs) \<and>
            deleteVote ctx j vs = (Inl TRPC_UNAUTHORIZED, vs)) \<and>
         (ctx_userId ctx = None \<longrightarrow>
            optional_id (questionsQuestion_findUnique (update_id uinp) qs) =
              userId_value (ctx_userId ctx) \<and>
            optional_id (questionsQuestion_findUnique i qs) = userId_value (ctx_userId ctx) \<and>
            update ctx uinp qs = questionsQuestion_update uinp (update_id uinp) qs \<and>
            update ctx uinp qs = (Inl Prisma_RecordNotFound, qs) \<and>
            delete ctx i qs = questionsQuestion_delete i qs \<and>
            delete ctx i qs = (Inl Prisma_RecordNotFound, qs)) \<and>
         fst (update ctx uinp qs) \<noteq> Inl TRPC_NOT_FOUND \<and>
         fst (delete ctx i qs) \<noteq> Inl TRPC_NOT_FOUND \<and>
         fst (updateVote ctx vinp vs) \<noteq> Inl TRPC_NOT_FOUND \<and>
         fst (deleteVote ctx j vs) \<noteq> Inl TRPC_NOT_FOUND"
  using assms
  by (cases "ctx_userId ctx")
    (simp_all add: update_def delete_def updateVote_def deleteVote_def Let_def
      optional_id_def optional_userId_def userId_value_def
      questionsQuestion_update_def questionsQuestion_delete_def
      questionsQuestionVote_update_def questionsQuestionVote_delete_def)

theorem missing_row_never_not_found_witness:
  "update (ex_ctx ''u1'') (ex_update ''zz'') ex_questions = (Inl TRPC_UNAUTHORIZED, ex_questions) \<and>
   delete (ex_ctx ''u1'') ''zz'' ex_questions = (Inl TRPC_UNAUTHORIZED, ex_questions) \<and>
   updateVote (ex_ctx ''u1'') (ex_updateVote ''zz'') ex_votes = (Inl TRPC_UNAUTHORIZED, ex_votes) \<and>
   deleteVote (ex_ctx ''u1'') ''zz'' ex_votes = (Inl TRPC_UNAUTHORIZED, ex_votes) \<and>
   update ex_anonymous (ex_update ''zz'') ex_questions = (Inl Prisma_RecordNotFound, ex_questions) \<and>
   delete ex_anonymous ''zz'' ex_questions = (Inl Prisma_RecordNotFound, ex_questions)"
proof -
  have q1: "questionsQuestion_findUnique (update_id (ex_update ''zz'')) ex_questions = None"
    by (simp add: questionsQuestion_findUnique_def ex_questions_def ex_mut_defs)
  have q2: "questionsQuestion_findUnique ''zz'' ex_questions = None"
    by (simp add: questionsQuestion_findUnique_def ex_questions_def ex_mut_defs)
  have v1: "questionsQuestionVote_findUnique (updateVote_id (ex_updateVote ''zz'')) ex_votes = None"
    by (simp add: questionsQuestionVote_findUnique_def ex_votes_def ex_vote_row_def
        ex_updateVote_def)
  have v2: "questionsQuestionVote_findUnique ''zz'' ex_votes = None"
    by (simp add: questionsQuestionVote_findUnique_def ex_votes_def ex_vote_row_def)
  have c1: "ctx_userId (ex_ctx ''u1'') \<noteq> None"
    by (simp add: ctx_userId_def ex_mut_defs)
  have c2: "ctx_userId ex_anonymous = None"
    by (simp add: ctx_userId_def ex_mut_defs)
  from missing_row_never_not_found [OF q1 q2 v1 v2, of "ex_ctx ''u1''"] c1
  have a: "update (ex_ctx ''u1'') (ex_update ''zz'') ex_questions =
        (Inl TRPC_UNAUTHORIZED, ex_questions) \<and>
      delete (ex_ctx ''u1'') ''zz'' ex_questions = (Inl TRPC_UNAUTHORIZED, ex_questions) \<and>
      updateVote (ex_ctx ''u1'') (ex_updateVote ''zz'') ex_votes =
        (Inl TRPC_UNAUTHORIZED, ex_votes) \<and>
      deleteVote (ex_ctx ''u1'') ''zz'' ex_votes = (Inl TRPC_UNAUTHORIZED, ex_votes)"
    by blast
  from missing_row_never_not_found [OF q1 q2 v1 v2, of ex_anonymous] c2
  have b: "update ex_anonymous (ex_update ''zz'') ex_questions =
        (Inl Prisma_RecordNotFound, ex_questions) \<and>
      delete ex_anonymous ''zz'' ex_questions = (Inl Prisma_RecordNotFound, ex_questions)"
    by blast
  from a b show ?thesis
    by blast
qed

lemma createVote_after:
  "fst (createVote ctx inp newId tbl) = Inr row \<Longrightarrow>
   \<exists>r \<in> set (snd (createVote ctx inp newId tbl)).
     vote_questionId r = createVote_questionId inp \<and> vote_userId r = ctx_userId ctx"
  by (auto simp: createVote_def questionsQuestionVote_create_def Let_def split: if_splits)

lemma createVote_rejected:
  "\<exists>r \<in> set tbl. vote_questionId r = createVote_questionId inp \<and> vote_userId r = ctx_userId ctx \<Longrightarrow>
     createVote ctx inp newId tbl = (Inl Prisma_UniqueConstraint, tbl)"
  by (auto simp: createVote_def questionsQuestionVote_create_def Let_def)

lemma createVote_count:
  "length (filter (\<lambda>r. vote_questionId r = createVote_questionId inp \<and>
                        vote_userId r = ctx_userId ctx) tbl) \<le> 1 \<Longrightarrow>
   length (filter (\<lambda>r. vote_questionId r = createVote_questionId inp \<and>
                        vote_userId r = ctx_userId ctx)
             (snd (createVote ctx inp newId tbl))) \<le> 1"
proof (cases "\<exists>r \<in> set tbl. vote_id r = newId \<or>
    (vote_questionId r = createVote_questionId inp \<and> vote_userId r = ctx_userId ctx)")
  case True
  assume "length (filter (\<lambda>r. vote_questionId r = createVote_questionId inp \<and>
                        vote_userId r = ctx_userId ctx) tbl) \<le> 1"
  with True show ?thesis
    by (simp add: createVote_def questionsQuestionVote_create_def Let_def)
next
  case False
  then have "filter (\<lambda>r. vote_questionId r = createVote_questionId inp \<and>
                        vote_userId r = ctx_userId ctx) tbl = []"
    by (auto simp: filter_empty_conv)
  with False show ?thesis
    by (simp add: createVote_def questionsQuestionVote_create_def Let_def)
qed

lemma createVote_inserts:
  assumes "\<forall>r \<in> set tbl. vote_id r \<noteq> newId \<and>
      \<not> (vote_questionId r = createVote_questionId inp \<and> vote_userId r = ctx_userId ctx)"
  shows "createVote ctx inp newId tbl =
      (Inr \<lparr> vote_id = newId, vote_questionId = createVote_questionId inp,
              vote_userId = ctx_userId ctx, vote = createVote_vote inp \<rparr>,
       tbl @ [\<lparr> vote_id = newId, vote_questionId = createVote_questionId inp,
              vote_userId = ctx_userId ctx, vote = createVote_vote inp \<rparr>])"
    and "length (filter (\<lambda>r. vote_questionId r = createVote_questionId inp \<and>
                        vote_userId r = ctx_userId ctx)
             (snd (createVote ctx inp newId tbl))) = 1"
proof -
  from assms have no: "\<not> (\<exists>r \<in> set tbl. vote_id r = newId \<or>
      (vote_questionId r = createVote_questionId inp \<and> vote_userId r = ctx_userId ctx))"
    by blast
  then show "createVote ctx inp newId tbl =
      (Inr \<lparr> vote_id = newId, vote_questionId = createVote_questionId inp,
              vote_userId = ctx_userId ctx, vote = createVote_vote inp \<rparr>,
       tbl @ [\<lparr> vote_id = newId, vote_questionId = createVote_questionId inp,
              vote_userId = ctx_userId ctx, vote = createVote_vote inp \<rparr>])"
    by (simp add: createVote_def questionsQuestionVote_create_def Let_def)
  from assms have "filter (\<lambda>r. vote_questionId r = createVote_questionId inp \<and>
                        vote_userId r = ctx_userId ctx) tbl = []"
    by (auto simp: filter_empty_conv)
  with no show "length (filter (\<lambda>r. vote_questionId r = createVote_questionId inp \<and>
                        vote_userId r = ctx_userId ctx)
             (snd (createVote ctx inp newId tbl))) = 1"
    by (simp add: createVote_def questionsQuestionVote_create_def Let_def)
qed

text \<open>C8. \<^verbatim>\<open>createVote\<close> is the insertion of the persistence layer with no check of its
  own. Of two calls by the same caller for the same question, once the first has inserted
  its row the second is rejected by the composite-uniqueness constraint and changes
  nothing. A table with at most one vote for the pair still has at most one after both
  calls, and exactly one when the pair had no vote and the first id was new.\<close>

theorem createVote_twice_one_row:
  assumes "createVote_questionId inp2 = createVote_questionId inp1"
  shows "createVote ctx inp1 id1 tbl =
           questionsQuestionVote_create id1 (createVote_questionId inp1) (createVote_vote inp1)
             (ctx_userId ctx) tbl \<and>
         ((\<exists>row. fst (createVote ctx inp1 id1 tbl) = Inr row) \<longrightarrow>
          createVote ctx inp2 id2 (snd (createVote ctx inp1 id1 tbl)) =
            (Inl Prisma_UniqueConstraint, snd (createVote ctx inp1 id1 tbl))) \<and>
         (length (filter (\<lambda>r. vote_questionId r = createVote_questionId inp1 \<and>
                              vote_userId r = ctx_userId ctx) tbl) \<le> 1 \<longrightarrow>
          length (filter (\<lambda>r. vote_questionId r = createVote_questionId inp1 \<and>
                              vote_userId r = ctx_userId ctx)
                   (snd (createVote ctx inp2 id2 (snd (createVote ctx inp1 id1 tbl))))) \<le> 1) \<and>
         ((\<forall>r \<in> set tbl. vote_id r \<noteq> id1 \<and>
              \<not> (vote_questionId r = createVote_questionId inp1 \<and>
                 vote_userId r = ctx_userId ctx)) \<longrightarrow>
          (\<exists>row. fst (createVote ctx inp1 id1 tbl) = Inr row) \<and>
          length (filter (\<lambda>r. vote_questionId r = createVote_questionId inp1 \<and>
                              vote_userId r = ctx_userId ctx)
                   (snd (createVote ctx inp2 id2 (snd (createVote ctx inp1 id1 tbl))))) = 1)"
proof (intro conjI impI)
  show "createVote ctx inp1 id1 tbl =
      questionsQuestionVote_create id1 (createVote_questionId inp1) (createVote_vote inp1)
        (ctx_userId ctx) tbl"
    by (simp add: createVote_def Let_def)
  show second: "createVote ctx inp2 id2 (snd (createVote ctx inp1 id1 tbl)) =
      (Inl Prisma_UniqueConstraint, snd (createVote ctx inp1 id1 tbl))"
    if "\<exists>row. fst (createVote ctx inp1 id1 tbl) = Inr row"
  proof -
    from that obtain row where "fst (createVote ctx inp1 id1 tbl) = Inr row"
      by blast
    from createVote_after [OF this] assms show ?thesis
      by (intro createVote_rejected) simp
  qed
  show "length (filter (\<lambda>r. vote_questionId r = createVote_questionId inp1 \<and>
                              vote_userId r = ctx_userId ctx)
                   (snd (createVote ctx inp2 id2 (snd (createVote ctx inp1 id1 tbl))))) \<le> 1"
    if "length (filter (\<lambda>r. vote_questionId r = createVote_questionId inp1 \<and>
                              vote_userId r = ctx_userId ctx) tbl) \<le> 1"
    using createVote_count [OF that, of id1]
      createVote_count [of inp2 ctx "snd (createVote ctx inp1 id1 tbl)" id2]
    by (simp add: assms)
  assume fresh: "\<forall>r \<in> set tbl. vote_id r \<noteq> id1 \<and>
      \<not> (vote_questionId r = createVote_questionId inp1 \<and> vote_userId r = ctx_userId ctx)"
  from createVote_inserts(1) [OF fresh]
  show ins: "\<exists>row. fst (createVote ctx inp1 id1 tbl) = Inr row"
    by simp
  from second [OF ins] createVote_inserts(2) [OF fresh]
  show "length (filter (\<lambda>r. vote_questionId r = createVote_questionId inp1 \<and>
                              vote_userId r = ctx_userId ctx)
                   (snd (createVote ctx inp2 id2 (snd (createVote ctx inp1 id1 tbl))))) = 1"
    by simp
qed

theorem createVote_twice_one_row_witness:
  "createVote (ex_ctx ''u1'') (ex_createVote Vote_UPVOTE) ''v3'' ex_votes =
     (Inr \<lparr> vote_id = ''v3'', vote_questionId = ''q2'', vote_userId = Some ''u1'',
             vote = Vote_UPVOTE \<rparr>,
      ex_votes @ [\<lparr> vote_id = ''v3'', vote_questionId = ''q2'', vote_userId = Some ''u1'',
                   vote = Vote_UPVOTE \<rparr>]) \<and>
   createVote (ex_ctx ''u1'') (ex_createVote Vote_DOWNVOTE) ''v4''
       (snd (createVote (ex_ctx ''u1'') (ex_createVote Vote_UPVOTE) ''v3'' ex_votes)) =
     (Inl Prisma_UniqueConstraint,
      snd (createVote (ex_ctx ''u1'') (ex_createVote Vote_UPVOTE) ''v3'' ex_votes)) \<and>
   length (filter (\<lambda>r. vote_questionId r = ''q2'' \<and> vote_userId r = Some ''u1'')
     (snd (createVote (ex_ctx ''u1'') (ex_createVote Vote_DOWNVOTE) ''v4''
        (snd (createVote (ex_ctx ''u1'') (ex_createVote Vote_UPVOTE) ''v3'' ex_votes))))) = 1"
proof -
  have q: "createVote_questionId (ex_createVote Vote_DOWNVOTE) =
      createVote_questionId (ex_createVote Vote_UPVOTE)"
    by (simp add: ex_createVote_def)
  have fresh: "\<forall>r \<in> set ex_votes. vote_id r \<noteq> ''v3'' \<and>
      \<not> (vote_questionId r = createVote_questionId (ex_createVote Vote_UPVOTE) \<and>
         vote_userId r = ctx_userId (ex_ctx ''u1''))"
    by (simp add: ex_votes_def ex_vote_row_def ex_createVote_def)
  have first: "createVote (ex_ctx ''u1'') (ex_createVote Vote_UPVOTE) ''v3'' ex_votes =
     (Inr \<lparr> vote_id = ''v3'', vote_questionId = ''q2'', vote_userId = Some ''u1'',
             vote = Vote_UPVOTE \<rparr>,
      ex_votes @ [\<lparr> vote_id = ''v3'', vote_questionId = ''q2'', vote_userId = Some ''u1'',
                   vote = Vote_UPVOTE \<rparr>])"
    by (simp add: createVote_def questionsQuestionVote_create_def Let_def ctx_userId_def
        ex_votes_def ex_vote_row_def ex_createVote_def ex_mut_defs)
  have c: "ctx_userId (ex_ctx ''u1'') = Some ''u1''"
    by (simp add: ctx_userId_def ex_mut_defs)
  have i: "createVote_questionId (ex_createVote Vote_UPVOTE) = ''q2''"
    by (simp add: ex_createVote_def)
  note t = createVote_twice_one_row [OF q, of "ex_ctx ''u1''" "''v3''" ex_votes "''v4''"]
  from first have ex: "\<exists>row. fst (createVote (ex_ctx ''u1'') (ex_createVote Vote_UPVOTE)
      ''v3'' ex_votes) = Inr row"
    by simp
  from t ex have second: "createVote (ex_ctx ''u1'') (ex_createVote Vote_DOWNVOTE) ''v4''
       (snd (createVote (ex_ctx ''u1'') (ex_createVote Vote_UPVOTE) ''v3'' ex_votes)) =
     (Inl Prisma_UniqueConstraint,
      snd (createVote (ex_ctx ''u1'') (ex_createVote Vote_UPVOTE) ''v3'' ex_votes))"
    by blast
  from t fresh have "length (filter (\<lambda>r. vote_questionId r =
          createVote_questionId (ex_createVote Vote_UPVOTE) \<and>
          vote_userId r = ctx_userId (ex_ctx ''u1''))
     (snd (createVote (ex_ctx ''u1'') (ex_createVote Vote_DOWNVOTE) ''v4''
        (snd (createVote (ex_ctx ''u1'') (ex_createVote Vote_UPVOTE) ''v3'' ex_votes))))) = 1"
    by blast
  then have one: "length (filter (\<lambda>r. vote_questionId r = ''q2'' \<and> vote_userId r = Some ''u1'')
     (snd (createVote (ex_ctx ''u1'') (ex_createVote Vote_DOWNVOTE) ''v4''
        (snd (createVote (ex_ctx ''u1'') (ex_createVote Vote_UPVOTE) ''v3'' ex_votes))))) = 1"
    unfolding c i .
  from first second one show ?thesis
    by blast
qed

lemma create_encounter_rows:
  "snd (snd (create ctx inp newId (qs, es))) =
     (if questionsQuestion_findUnique newId qs = None
      then es @ replicate 2
             \<lparr> enc_company = create_company inp, enc_location = Some (create_location inp),
               enc_questionId = newId, enc_role = Some (create_role inp),
               enc_seenAt = create_seenAt inp, enc_userId = ctx_userId ctx \<rparr>
      else es)"
  by (cases "questionsQuestion_findUnique newId qs")
    (simp_all add: create_def Let_def questionsQuestion_create_def
      questionsQuestionEncounter_create_def encounter_of_nested_def numeral_2_eq_2)

text \<open>C4. \<^verbatim>\<open>create\<close> on empty tables: the question row is written once, by the caller,
  and the encounter is written twice, once nested in the write of the question and once
  by the separate write after it.\<close>

theorem create_writes_encounter_twice:
  "create (ex_ctx ''u1'') ex_create ''q1'' ([], []) =
     (Inr \<lparr> row_id = ''q1'', row_content = ''c1'', row_questionType = ''CODING'',
             row_userId = Some ''u1'' \<rparr>,
      ([\<lparr> row_id = ''q1'', row_content = ''c1'', row_questionType = ''CODING'',
           row_userId = Some ''u1'' \<rparr>],
       [\<lparr> enc_company = ''A'', enc_location = Some ''SG'', enc_questionId = ''q1'',
           enc_role = Some ''SWE'', enc_seenAt = 10, enc_userId = Some ''u1'' \<rparr>,
        \<lparr> enc_company = ''A'', enc_location = Some ''SG'', enc_questionId = ''q1'',
           enc_role = Some ''SWE'', enc_seenAt = 10, enc_userId = Some ''u1'' \<rparr>]))"
  by (simp add: create_def Let_def questionsQuestion_create_def questionsQuestion_findUnique_def
      questionsQuestionEncounter_create_def encounter_of_nested_def ctx_userId_def
      ex_create_def ex_mut_defs)

end
